theory Spec2Isabelle
  imports Main "HOL-Library.AList" "HOL-Library.Sublist" "HOL-Library.Char_ord"
    "HOL-Library.List_Lexorder"
begin

section \<open>Values exchanged between the services\<close>

text \<open>
  Times are milliseconds since the epoch. The source stamps records with
  \<^verbatim>\<open>new Date().toISOString()\<close>; the constructor \<open>JStamp t\<close> stands for the ISO-8601
  string of the instant \<open>t\<close> (a non-empty string, hence truthy).

  \<open>json\<close> is what \<^verbatim>\<open>JSON.parse\<close> can return. Numbers are restricted to integers; the
  only thing the services ask of a number is whether it is zero. A field that is
  \<^verbatim>\<open>undefined\<close> (absent after a round trip through \<^verbatim>\<open>JSON.stringify\<close>) is \<open>None\<close>
  of \<open>json option\<close>.
\<close>

type_synonym time = nat

datatype json =
    JNull
  | JBool bool
  | JNum int
  | JStr string
  | JStamp time
  | JArr "json list"
  | JObj "(string \<times> json) list"

text \<open>JavaScript truthiness, as used by \<^verbatim>\<open>!type\<close>, \<^verbatim>\<open>if (result)\<close>, \<^verbatim>\<open>success ? .. : ..\<close>.\<close>

fun truthy :: "json \<Rightarrow> bool" where
  "truthy JNull = False"
| "truthy (JBool b) = b"
| "truthy (JNum n) = (n \<noteq> 0)"
| "truthy (JStr s) = (s \<noteq> [])"
| "truthy (JStamp t) = True"
| "truthy (JArr xs) = True"
| "truthy (JObj kvs) = True"

fun truthy_opt :: "json option \<Rightarrow> bool" where
  "truthy_opt None = False"
| "truthy_opt (Some v) = truthy v"

text \<open>
  Reading a property of a parsed value that is not \<^verbatim>\<open>null\<close>: an object yields the
  value of the key (the last one, when the text repeated the key), every primitive and
  every array yields \<^verbatim>\<open>undefined\<close> for the property names the services read.
  Reading a property of \<^verbatim>\<open>null\<close> throws; the callers test for \<open>JNull\<close> first.
\<close>

fun field :: "json \<Rightarrow> string \<Rightarrow> json option" where
  "field (JObj kvs) k = map_of (rev kvs) k"
| "field v k = None"

text \<open>A key of an object literal whose value is \<^verbatim>\<open>undefined\<close> is dropped by the encoder.\<close>

definition opt_field :: "string \<Rightarrow> json option \<Rightarrow> (string \<times> json) list" where
  "opt_field k v = (case v of None \<Rightarrow> [] | Some x \<Rightarrow> [(k, x)])"

datatype response = Response (code: nat) (body: json)

section \<open>The key-value namespace\<close>

text \<open>
  A \<^verbatim>\<open>KVNamespace\<close> is a table from keys to a value and an optional absolute expiry.
  The expiry is kept in whole seconds since the epoch: a \<^verbatim>\<open>put\<close> with
  \<^verbatim>\<open>expirationTtl\<close> \<open>secs\<close> at the instant \<open>now\<close> (milliseconds) stores
  \<open>now div 1000 + secs\<close>, and the entry is gone for \<^verbatim>\<open>get\<close> from the instant
  \<open>expiry * 1000\<close> on. \<^verbatim>\<open>put\<close> replaces value and expiry together (a \<^verbatim>\<open>put\<close> without
  \<^verbatim>\<open>expirationTtl\<close> stores an entry that does not expire); \<^verbatim>\<open>get\<close> answers \<^verbatim>\<open>null\<close> for
  a missing key and for a key whose expiry has passed; \<^verbatim>\<open>delete\<close> removes the key.
  \<^verbatim>\<open>list\<close> enumerates the keys with a prefix in lexicographic order and returns one page
  of at most 1000 of them per call; the handlers call it once and never follow the
  cursor, so \<open>kv_list\<close> is that first page. An expired entry stays in the table until it
  is overwritten or deleted, and \<open>kv_list\<close> still names its key. The table is taken to
  answer every call.
\<close>

type_synonym 'v kv = "(string \<times> 'v \<times> nat option) list"

definition expired :: "nat option \<Rightarrow> time \<Rightarrow> bool" where
  "expired e now = (case e of None \<Rightarrow> False | Some t \<Rightarrow> t * 1000 \<le> now)"

definition kv_put :: "string \<Rightarrow> 'v \<Rightarrow> nat option \<Rightarrow> time \<Rightarrow> 'v kv \<Rightarrow> 'v kv" where
  "kv_put k v expirationTtl now s =
     AList.update k (v, map_option (\<lambda>secs. now div 1000 + secs) expirationTtl) s"

definition kv_get :: "string \<Rightarrow> time \<Rightarrow> 'v kv \<Rightarrow> 'v option" where
  "kv_get k now s =
     (case map_of s k of
        None \<Rightarrow> None
      | Some (v, e) \<Rightarrow> if expired e now then None else Some v)"

definition kv_delete :: "string \<Rightarrow> 'v kv \<Rightarrow> 'v kv" where
  "kv_delete k s = AList.delete k s"

definition kv_list :: "string \<Rightarrow> 'v kv \<Rightarrow> string list" where
  "kv_list pre s = take 1000 (sort (filter (prefix pre) (map fst s)))"

section \<open>Handoff broker (consumer-worker/src/index.ts)\<close>

datatype buffer_status = B_ready | B_processing | B_completed

record queue_message =
  taskId :: string
  type :: json
  payload :: "json option"
  createdAt :: time

record buffered_task = queue_message +
  status :: buffer_status
  receivedAt :: time
  claimedAt :: "time option"

type_synonym buffer = "buffered_task kv"

fun buffer_status_json :: "buffer_status \<Rightarrow> json" where
  "buffer_status_json B_ready = JStr ''ready''"
| "buffer_status_json B_processing = JStr ''processing''"
| "buffer_status_json B_completed = JStr ''completed''"

definition buffered_json :: "buffered_task \<Rightarrow> json" where
  "buffered_json t =
     JObj ([(''taskId'', JStr (taskId t)), (''type'', type t)]
           @ opt_field ''payload'' (payload t)
           @ [(''createdAt'', JStamp (createdAt t)),
              (''status'', buffer_status_json (status t)),
              (''receivedAt'', JStamp (receivedAt t))]
           @ opt_field ''claimedAt'' (map_option JStamp (claimedAt t)))"

definition buffer_key :: "string \<Rightarrow> string" where
  "buffer_key tid = ''task:'' @ tid"

text \<open>
  \<^verbatim>\<open>queue(batch, env)\<close>: every message of the batch is written under
  \<^verbatim>\<open>task:<taskId>\<close> as a \<^verbatim>\<open>ready\<close> entry with a 24 hour time to live, whatever the
  table holds under that key.
\<close>

definition bufferedTask :: "queue_message \<Rightarrow> time \<Rightarrow> buffered_task" where
  "bufferedTask m now =
     \<lparr>taskId = taskId m, type = type m, payload = payload m, createdAt = createdAt m,
      status = B_ready, receivedAt = now, claimedAt = None\<rparr>"

fun queue :: "queue_message list \<Rightarrow> time \<Rightarrow> buffer \<Rightarrow> buffer" where
  "queue [] now s = s"
| "queue (m # ms) now s =
     queue ms now (kv_put (buffer_key (taskId m)) (bufferedTask m now) (Some 86400) now s)"

text \<open>\<^verbatim>\<open>GET /tasks/ready\<close>: the loop over \<^verbatim>\<open>list.keys\<close>, then the response.\<close>

fun readyLoop :: "string list \<Rightarrow> time \<Rightarrow> buffer \<Rightarrow> buffered_task list \<Rightarrow> buffered_task list" where
  "readyLoop [] now s readyTasks = readyTasks"
| "readyLoop (k # ks) now s readyTasks =
     (case kv_get k now s of
        None \<Rightarrow> readyLoop ks now s readyTasks
      | Some task \<Rightarrow>
          if status task = B_ready then readyLoop ks now s (readyTasks @ [task])
          else readyLoop ks now s readyTasks)"

definition readyTasks :: "time \<Rightarrow> buffer \<Rightarrow> buffered_task list" where
  "readyTasks now s = readyLoop (kv_list ''task:'' s) now s []"


text \<open>\<^verbatim>\<open>POST /tasks/:id/claim\<close>.\<close>

definition claimed :: "buffered_task \<Rightarrow> time \<Rightarrow> buffered_task" where
  "claimed task now = task\<lparr>status := B_processing, claimedAt := Some now\<rparr>"

definition broker_claim :: "string \<Rightarrow> time \<Rightarrow> buffer \<Rightarrow> response \<times> buffer" where
  "broker_claim tid now s =
     (case kv_get (buffer_key tid) now s of
        None \<Rightarrow>
          (Response 404 (JObj [(''error'', JStr ''Task not found''), (''taskId'', JStr tid)]), s)
      | Some task \<Rightarrow>
          if status task \<noteq> B_ready then
            (Response 409
               (JObj [(''error'', JStr ''Task not available''), (''taskId'', JStr tid),
                      (''currentStatus'', buffer_status_json (status task))]),
             s)
          else
            (Response 200
               (JObj [(''success'', JBool True),
                      (''task'', buffered_json (claimed task now)),
                      (''message'', JStr ''Task claimed successfully'')]),
             kv_put (buffer_key tid) (claimed task now) None now s))"

text \<open>\<^verbatim>\<open>POST /tasks/:id/complete\<close>: the key is deleted without being read.\<close>

definition broker_complete :: "string \<Rightarrow> buffer \<Rightarrow> response \<times> buffer" where
  "broker_complete tid s =
     (Response 200
        (JObj [(''success'', JBool True), (''message'', JStr ''Task removed from buffer''),
               (''taskId'', JStr tid)]),
      kv_delete (buffer_key tid) s)"

text \<open>\<^verbatim>\<open>GET /tasks/all\<close>.\<close>

definition broker_listAll :: "time \<Rightarrow> buffer \<Rightarrow> response \<times> buffer" where
  "broker_listAll now s =
     (let allTasks = List.map_filter (\<lambda>k. kv_get k now s) (kv_list ''task:'' s)
      in (Response 200
            (JObj [(''tasks'', JArr (map buffered_json allTasks)),
                   (''count'', JNum (int (length allTasks))),
                   (''timestamp'', JStamp now)]),
          s))"

section \<open>Submission service (the Hono application of the API worker)\<close>

datatype task_status = S_pending | S_processing | S_completed | S_failed

text \<open>
  The stored \<^verbatim>\<open>Task\<close>. The fields \<^verbatim>\<open>result\<close> and \<^verbatim>\<open>error\<close> are not declared by the
  interface; the completion handler adds them through \<^verbatim>\<open>(task as any)\<close>. The names carry
  the prefix \<open>t_\<close> to keep them apart from the fields of the buffer entry.
\<close>

record task =
  t_id :: string
  t_type :: json
  t_payload :: "json option"
  t_createdAt :: time
  t_status :: task_status
  t_completedAt :: "time option"
  t_result :: "json option"
  t_error :: "json option"

type_synonym storage = "task kv"

fun task_status_string :: "task_status \<Rightarrow> string" where
  "task_status_string S_pending = ''pending''"
| "task_status_string S_processing = ''processing''"
| "task_status_string S_completed = ''completed''"
| "task_status_string S_failed = ''failed''"

definition task_json :: "task \<Rightarrow> json" where
  "task_json t =
     JObj ([(''id'', JStr (t_id t)), (''type'', t_type t)]
           @ opt_field ''payload'' (t_payload t)
           @ [(''createdAt'', JStamp (t_createdAt t)),
              (''status'', JStr (task_status_string (t_status t)))]
           @ opt_field ''completedAt'' (map_option JStamp (t_completedAt t))
           @ opt_field ''result'' (t_result t)
           @ opt_field ''error'' (t_error t))"

definition storage_key :: "string \<Rightarrow> string" where
  "storage_key tid = ''task:'' @ tid"

text \<open>
  \<^verbatim>\<open>POST /tasks\<close>. \<open>reqBody\<close> is what \<^verbatim>\<open>c.req.json()\<close> yields: \<open>None\<close> when the body is
  not parseable JSON (the promise rejects), \<open>Some b\<close> otherwise. Destructuring \<^verbatim>\<open>null\<close>
  throws as well. Both land in the \<^verbatim>\<open>catch\<close>. \<open>uuid\<close> is the value of
  \<^verbatim>\<open>crypto.randomUUID()\<close>, \<open>q\<close> the messages sent to the queue so far.
\<close>

definition api_submit ::
  "json option \<Rightarrow> string \<Rightarrow> time \<Rightarrow> storage \<Rightarrow> queue_message list
     \<Rightarrow> response \<times> storage \<times> queue_message list" where
  "api_submit reqBody uuid now s q =
     (case reqBody of
        None \<Rightarrow> (Response 500 (JObj [(''error'', JStr ''Failed to create task'')]), s, q)
      | Some b \<Rightarrow>
          if b = JNull then
            (Response 500 (JObj [(''error'', JStr ''Failed to create task'')]), s, q)
          else
            (case field b ''type'' of
               None \<Rightarrow> (Response 400 (JObj [(''error'', JStr ''Task type is required'')]), s, q)
             | Some ty \<Rightarrow>
                 if \<not> truthy ty then
                   (Response 400 (JObj [(''error'', JStr ''Task type is required'')]), s, q)
                 else
                   (Response 201
                      (JObj [(''success'', JBool True), (''taskId'', JStr uuid),
                             (''status'', JStr ''pending''),
                             (''message'', JStr ''Task queued successfully'')]),
                    kv_put (storage_key uuid)
                      \<lparr>t_id = uuid, t_type = ty, t_payload = field b ''payload'',
                       t_createdAt = now, t_status = S_pending, t_completedAt = None,
                       t_result = None, t_error = None\<rparr>
                      None now s,
                    q @ [\<lparr>taskId = uuid, type = ty, payload = field b ''payload'',
                          createdAt = now\<rparr>])))"

text \<open>\<^verbatim>\<open>GET /tasks/:id/status\<close>: five fields of the record are copied into the answer.\<close>

definition api_getStatus :: "string \<Rightarrow> time \<Rightarrow> storage \<Rightarrow> response \<times> storage" where
  "api_getStatus tid now s =
     (case kv_get (storage_key tid) now s of
        None \<Rightarrow> (Response 404 (JObj [(''error'', JStr ''Task not found'')]), s)
      | Some task \<Rightarrow>
          (Response 200
             (JObj ([(''taskId'', JStr (t_id task)),
                     (''status'', JStr (task_status_string (t_status task))),
                     (''type'', t_type task),
                     (''createdAt'', JStamp (t_createdAt task))]
                    @ opt_field ''completedAt'' (map_option JStamp (t_completedAt task)))),
           s))"

text \<open>
  \<^verbatim>\<open>POST /tasks/:id/complete\<close>. The body is read before the record is looked up.
  \<open>completedTask\<close> is the record after the four assignments of the handler.
\<close>

definition completedTask :: "task \<Rightarrow> json \<Rightarrow> time \<Rightarrow> task" where
  "completedTask task b now =
     task\<lparr>t_status := (if truthy_opt (field b ''success'') then S_completed else S_failed),
          t_completedAt := Some now,
          t_result := (if truthy_opt (field b ''result'') then field b ''result''
                       else t_result task),
          t_error := (if truthy_opt (field b ''error'') then field b ''error''
                      else t_error task)\<rparr>"

definition api_complete ::
  "string \<Rightarrow> json option \<Rightarrow> time \<Rightarrow> storage \<Rightarrow> response \<times> storage" where
  "api_complete tid reqBody now s =
     (case reqBody of
        None \<Rightarrow> (Response 500 (JObj [(''error'', JStr ''Failed to complete task'')]), s)
      | Some b \<Rightarrow>
          if b = JNull then
            (Response 500 (JObj [(''error'', JStr ''Failed to complete task'')]), s)
          else
            (case kv_get (storage_key tid) now s of
               None \<Rightarrow> (Response 404 (JObj [(''error'', JStr ''Task not found'')]), s)
             | Some task \<Rightarrow>
                 (Response 200
                    (JObj [(''success'', JBool True),
                           (''message'',
                            JStr (''Task marked as ''
                                  @ task_status_string (t_status (completedTask task b now)))),
                           (''taskId'', JStr tid),
                           (''status'',
                            JStr (task_status_string (t_status (completedTask task b now))))]),
                  kv_put (storage_key tid) (completedTask task b now) None now s)))"

text \<open>\<^verbatim>\<open>GET /tasks\<close>: \<^verbatim>\<open>count\<close> is the number of keys, not of the tasks returned.\<close>

definition api_listAll :: "time \<Rightarrow> storage \<Rightarrow> response \<times> storage" where
  "api_listAll now s =
     (let tasks = map (\<lambda>k. kv_get k now s) (kv_list ''task:'' s)
      in (Response 200
            (JObj [(''tasks'', JArr (map task_json (List.map_filter (\<lambda>x. x) tasks))),
                   (''count'', JNum (int (length tasks)))]),
          s))"

text \<open>
  The states of the submission service: the storage and the queue after a sequence of
  requests, starting from nothing.
\<close>

datatype api_request =
    Submit "json option" string time
  | GetStatus string time
  | ReportCompletion string "json option" time
  | ListAll time

fun api_step :: "api_request \<Rightarrow> storage \<times> queue_message list \<Rightarrow> storage \<times> queue_message list" where
  "api_step (Submit reqBody uuid now) (s, q) = snd (api_submit reqBody uuid now s q)"
| "api_step (GetStatus tid now) (s, q) = (snd (api_getStatus tid now s), q)"
| "api_step (ReportCompletion tid reqBody now) (s, q) = (snd (api_complete tid reqBody now s), q)"
| "api_step (ListAll now) (s, q) = (snd (api_listAll now s), q)"

definition api_run :: "api_request list \<Rightarrow> storage \<times> queue_message list" where
  "api_run reqs = fold api_step reqs ([], [])"

definition terminal :: "task_status \<Rightarrow> bool" where
  "terminal st = (st = S_completed \<or> st = S_failed)"

text \<open>
  The property of a storage that every record carrying a \<^verbatim>\<open>result\<close> or an \<^verbatim>\<open>error\<close> is
  terminal.
\<close>

definition result_error_only_terminal :: "storage \<Rightarrow> bool" where
  "result_error_only_terminal s =
     list_all (\<lambda>(k, t, e). (t_result t = None \<and> t_error t = None) \<or> terminal (t_status t)) s"

section \<open>Worker (the polling consumer)\<close>

text \<open>
  \<open>simulateWork\<close> returns a promise that a timer settles. The timer's callback reads
  \<^verbatim>\<open>payload.shouldFail\<close>: for a payload that is \<^verbatim>\<open>null\<close> or \<^verbatim>\<open>undefined\<close> the read throws
  inside the callback, where neither the promise nor the \<^verbatim>\<open>try\<close> of \<open>processTask\<close>
  sees it, and the promise is never settled.
\<close>

datatype work_outcome = Resolved | Rejected string | NeverSettles

fun getProcessingTime :: "json \<Rightarrow> int" where
  "getProcessingTime ty =
     (if ty = JStr ''heavy'' then 3000
      else if ty = JStr ''medium'' then 2000
      else if ty = JStr ''light'' then 500
      else 1000)"

fun simulateWork :: "json \<Rightarrow> json option \<Rightarrow> work_outcome" where
  "simulateWork ty None = NeverSettles"
| "simulateWork ty (Some p) =
     (if p = JNull then NeverSettles
      else if truthy_opt (field p ''shouldFail'') then Rejected ''Simulated task failure''
      else Resolved)"

text \<open>
  What the worker does to the outside, in order: the two HTTP requests it sends and the
  lines it logs (level and fixed part of the message). \<open>net\<close> says which service answers;
  a request to a service that does not answer, and an answer outside 2xx, make
  \<^verbatim>\<open>axios.post\<close> throw.
\<close>

datatype log_level = L_info | L_warn | L_error

datatype event =
    Post_api_complete string json
  | Post_buffer_complete string
  | Log log_level string

record net =
  api_up :: bool
  buffer_up :: bool

record world =
  api_storage :: storage
  task_buffer :: buffer
  trace :: "event list"

definition emit :: "event \<Rightarrow> world \<Rightarrow> world" where
  "emit e w = w\<lparr>trace := trace w @ [e]\<rparr>"

definition completionBody :: "bool \<Rightarrow> json option \<Rightarrow> string option \<Rightarrow> json" where
  "completionBody success res err =
     JObj ([(''success'', JBool success)]
           @ opt_field ''result'' res
           @ opt_field ''error'' (map_option JStr err))"

definition markTaskCompleted ::
  "net \<Rightarrow> time \<Rightarrow> string \<Rightarrow> bool \<Rightarrow> json option \<Rightarrow> string option \<Rightarrow> world \<Rightarrow> world" where
  "markTaskCompleted n now tid success res err w =
     (let w1 = emit (Post_api_complete tid (completionBody success res err)) w
      in if \<not> api_up n then
           emit (Log L_error ''Failed to mark task as completed in API'') w1
         else
           (let (r, s') = api_complete tid (Some (completionBody success res err)) now
                            (api_storage w1);
                w2 = w1\<lparr>api_storage := s'\<rparr>
            in if 200 \<le> code r \<and> code r < 300 then
                 emit (Log L_info ''Completion reported to API'') w2
               else emit (Log L_error ''Failed to mark task as completed in API'') w2))"

definition completeTaskInBuffer :: "net \<Rightarrow> string \<Rightarrow> world \<Rightarrow> world" where
  "completeTaskInBuffer n tid w =
     (let w1 = emit (Post_buffer_complete tid) w
      in if \<not> buffer_up n then
           emit (Log L_error ''Failed to remove task from buffer'') w1
         else
           (let (r, s') = broker_complete tid (task_buffer w1);
                w2 = w1\<lparr>task_buffer := s'\<rparr>
            in if 200 \<le> code r \<and> code r < 300 then
                 emit (Log L_info ''Task removed from queue buffer'') w2
               else emit (Log L_error ''Failed to remove task from buffer'') w2))"

text \<open>
  \<open>processTask\<close> on a claimed task; \<open>None\<close> when the promise of \<open>simulateWork\<close> is never
  settled and the function does not return.
\<close>

definition processTask :: "net \<Rightarrow> time \<Rightarrow> buffered_task \<Rightarrow> world \<Rightarrow> world option" where
  "processTask n now task w =
     (let w0 = emit (Log L_info ''Processing task'') (emit (Log L_info ''Processing Task:'') w)
      in case simulateWork (type task) (payload task) of
           NeverSettles \<Rightarrow> None
         | Resolved \<Rightarrow>
             Some (emit (Log L_info ''Task completed successfully'')
                    (completeTaskInBuffer n (taskId task)
                      (markTaskCompleted n now (taskId task) True
                         (Some (JObj [(''processedAt'', JStamp now),
                                      (''processedBy'', JStr ''local-consumer-v2''),
                                      (''processingDuration'',
                                       JNum (getProcessingTime (type task)))]))
                         None
                         (emit (Log L_info ''Simulating work'') w0))))
         | Rejected msg \<Rightarrow>
             Some (completeTaskInBuffer n (taskId task)
                    (markTaskCompleted n now (taskId task) False None (Some msg)
                       (emit (Log L_error ''Task failed'')
                          (emit (Log L_info ''Simulating work'') w0)))))"

text \<open>The requests among the events, in the order they were sent.\<close>

fun is_request :: "event \<Rightarrow> bool" where
  "is_request (Log l m) = False"
| "is_request e = True"

definition requests :: "event list \<Rightarrow> event list" where
  "requests es = filter is_request es"

section \<open>Sample data\<close>

definition sample_ready :: buffered_task where
  "sample_ready =
     \<lparr>taskId = ''b'', type = JStr ''email'', payload = Some (JObj []), createdAt = 1,
      status = B_ready, receivedAt = 2, claimedAt = None\<rparr>"

definition sample_processing :: buffered_task where
  "sample_processing =
     \<lparr>taskId = ''a'', type = JStr ''email'', payload = Some (JObj []), createdAt = 1,
      status = B_processing, receivedAt = 2, claimedAt = Some 3\<rparr>"

text \<open>
  A buffer with a claimed entry (written by the claim handler, hence without expiry) and a
  ready entry received at instant 2, whose expiry is the second 86400.
\<close>

definition sample_buffer :: buffer where
  "sample_buffer =
     [(''task:a'', sample_processing, None), (''task:b'', sample_ready, Some 86400)]"

text \<open>
  The buffered entries whose status is \<^verbatim>\<open>ready\<close> and whose expiry has not elapsed, as the
  specification words the result of the listing.
\<close>

definition ready_entries :: "time \<Rightarrow> buffer \<Rightarrow> buffered_task list" where
  "ready_entries now s =
     map (\<lambda>(k, t, e). t)
       (filter (\<lambda>(k, t, e). prefix ''task:'' k \<and> status t = B_ready \<and> \<not> expired e now) s)"

text \<open>A buffer after the delivery of 1001 messages with different task ids.\<close>

definition numbered_message :: "nat \<Rightarrow> queue_message" where
  "numbered_message i =
     \<lparr>taskId = replicate (Suc i) CHR ''x'', type = JStr ''email'', payload = Some (JObj []),
      createdAt = 0\<rparr>"

definition big_batch :: "queue_message list" where
  "big_batch = map numbered_message [0..<1001]"

definition big_buffer :: buffer where
  "big_buffer = queue big_batch 0 []"

definition sample_message :: queue_message where
  "sample_message =
     \<lparr>taskId = ''a'', type = JStr ''email'', payload = Some (JObj []), createdAt = 1\<rparr>"

definition sample_task :: task where
  "sample_task =
     \<lparr>t_id = ''t1'', t_type = JStr ''email'', t_payload = Some (JObj [(''to'', JStr ''a@b.com'')]),
      t_createdAt = 1, t_status = S_pending, t_completedAt = None, t_result = None,
      t_error = None\<rparr>"

definition sample_storage :: storage where
  "sample_storage = [(''task:t1'', sample_task, None)]"

definition sample_submit_body :: json where
  "sample_submit_body =
     JObj [(''type'', JStr ''email''), (''payload'', JObj [(''to'', JStr ''a@b.com'')])]"

definition sample_success_body :: json where
  "sample_success_body =
     completionBody True (Some (JObj [(''processedBy'', JStr ''local-consumer-v2'')])) None"

definition sample_failure_body :: json where
  "sample_failure_body = completionBody False None (Some ''Simulated task failure'')"

definition sample_requests :: "api_request list" where
  "sample_requests =
     [Submit (Some sample_submit_body) ''t1'' 1,
      ReportCompletion ''t1'' (Some sample_success_body) 10,
      ReportCompletion ''t1'' (Some sample_failure_body) 20]"

text \<open>
  A claimed task whose payload asks for a failure, in the world of a worker that holds the
  task in the buffer while the submission service does not answer.
\<close>

definition sample_claimed :: buffered_task where
  "sample_claimed =
     \<lparr>taskId = ''t1'', type = JStr ''test'', payload = Some (JObj [(''shouldFail'', JBool True)]),
      createdAt = 1, status = B_processing, receivedAt = 2, claimedAt = Some 3\<rparr>"

definition sample_world :: world where
  "sample_world =
     \<lparr>api_storage = sample_storage, task_buffer = [(''task:t1'', sample_claimed, None)],
      trace = []\<rparr>"

definition sample_net :: net where
  "sample_net = \<lparr>api_up = False, buffer_up = True\<rparr>"

text \<open>
  A task submitted with a type and no payload, as the queue delivers it and as the claim
  returns it to a worker that reaches both services.
\<close>

definition bare_body :: json where
  "bare_body = JObj [(''type'', JStr ''email'')]"

definition bare_message :: queue_message where
  "bare_message = \<lparr>taskId = ''t2'', type = JStr ''email'', payload = None, createdAt = 1\<rparr>"

definition bare_claimed :: buffered_task where
  "bare_claimed =
     \<lparr>taskId = ''t2'', type = JStr ''email'', payload = None, createdAt = 1,
      status = B_processing, receivedAt = 2, claimedAt = Some 3\<rparr>"

definition bare_world :: world where
  "bare_world =
     \<lparr>api_storage = fst (snd (api_submit (Some bare_body) ''t2'' 1 [] [])),
      task_buffer = snd (broker_claim ''t2'' 3 (queue [bare_message] 2 [])),
      trace = []\<rparr>"

definition net_up :: net where
  "net_up = \<lparr>api_up = True, buffer_up = True\<rparr>"

section \<open>Facts about the namespace\<close>

lemma kv_get_put_same:
  "kv_get k now' (kv_put k v ttl now s) =
     (if expired (map_option (\<lambda>secs. now div 1000 + secs) ttl) now' then None else Some v)"
  by (simp add: kv_get_def kv_put_def update_conv')

lemma kv_get_put_other: "k' \<noteq> k \<Longrightarrow> kv_get k' now' (kv_put k v ttl now s) = kv_get k' now' s"
  by (simp add: kv_get_def kv_put_def update_conv')

lemma map_of_kv_put: "map_of (kv_put k v ttl now s) =
  (map_of s)(k \<mapsto> (v, map_option (\<lambda>secs. now div 1000 + secs) ttl))"
  by (simp add: kv_put_def update_conv')

lemma map_of_kv_delete: "map_of (kv_delete k s) = (map_of s)(k := None)"
  by (simp add: kv_delete_def delete_conv')

lemma kv_get_delete_same: "kv_get k now (kv_delete k s) = None"
  by (simp add: kv_get_def map_of_kv_delete)

lemma kv_delete_idem: "kv_delete k (kv_delete k s) = kv_delete k s"
  by (simp add: kv_delete_def delete_idem)

section \<open>Facts about the broker's loops\<close>

lemma in_set_map_filter:
  "y \<in> set (List.map_filter f xs) \<longleftrightarrow> (\<exists>x \<in> set xs. f x = Some y)"
  by (induction xs) (auto split: option.splits)

lemma readyLoop_eq:
  "readyLoop ks now s acc =
     acc @ List.map_filter (\<lambda>k. case kv_get k now s of None \<Rightarrow> None
                                  | Some t \<Rightarrow> if status t = B_ready then Some t else None) ks"
  by (induction ks arbitrary: acc) (auto simp: List.map_filter_simps split: option.splits)






text \<open>What the buffer answers for a key after the queue handler has run on a batch.\<close>

lemma kv_get_queue:
  "kv_get k later (queue ms now s) =
     (case filter (\<lambda>x. buffer_key (taskId x) = k) ms of
        [] \<Rightarrow> kv_get k later s
      | x # xs \<Rightarrow>
          if expired (Some (now div 1000 + 86400)) later then None
          else Some (bufferedTask (last (x # xs)) now))"
proof (induction ms arbitrary: s)
  case Nil
  then show ?case by simp
next
  case (Cons m ms)
  show ?case
  proof (cases "filter (\<lambda>x. buffer_key (taskId x) = k) ms")
    case Nil
    then show ?thesis
      by (simp add: Cons.IH kv_get_put_same kv_get_put_other)
  next
    case (Cons y ys)
    then show ?thesis
      by (simp add: Cons.IH)
  qed
qed

lemma buffer_key_inject: "buffer_key a = buffer_key b \<longleftrightarrow> a = b"
  by (simp add: buffer_key_def)

text \<open>Deliveries of different task ids into a buffer that holds none of them.\<close>

lemma update_fresh: "k \<notin> fst ` set s \<Longrightarrow> AList.update k v s = s @ [(k, v)]"
  by (induction s) auto

lemma queue_fresh:
  assumes "distinct (map taskId ms)"
    and "\<forall>m \<in> set ms. buffer_key (taskId m) \<notin> fst ` set s"
  shows "queue ms now s =
           s @ map (\<lambda>m. (buffer_key (taskId m), bufferedTask m now, Some (now div 1000 + 86400))) ms"
  using assms
proof (induction ms arbitrary: s)
  case Nil
  then show ?case by simp
next
  case (Cons m ms)
  let ?e = "(buffer_key (taskId m), bufferedTask m now, Some (now div 1000 + 86400))"
  from Cons.prems(2) have put: "kv_put (buffer_key (taskId m)) (bufferedTask m now) (Some 86400) now s
                 = s @ [?e]"
    by (simp add: kv_put_def update_fresh)
  from Cons.prems have "distinct (map taskId ms)"
    and "\<forall>x \<in> set ms. buffer_key (taskId x) \<notin> fst ` set (s @ [?e])"
    by (auto simp: buffer_key_inject image_iff)
  from Cons.IH [OF this] put show ?case by simp
qed



lemma distinct_big_batch: "distinct (map taskId big_batch)"
proof -
  have "inj_on (\<lambda>i. replicate (Suc i) CHR ''x'') (set [0..<1001])"
  proof (rule inj_onI)
    fix i j :: nat
    assume "replicate (Suc i) CHR ''x'' = replicate (Suc j) CHR ''x''"
    then have "length (replicate (Suc i) CHR ''x'') = length (replicate (Suc j) CHR ''x'')"
      by (rule arg_cong)
    then show "i = j" by simp
  qed
  then have "distinct (map (\<lambda>i. replicate (Suc i) CHR ''x'') [0..<1001])"
    by (simp add: distinct_map)
  then show ?thesis
    by (simp add: big_batch_def numbered_message_def comp_def)
qed

lemma big_buffer_eq:
  "big_buffer =
     map (\<lambda>m. (buffer_key (taskId m), bufferedTask m 0, Some (0 div 1000 + 86400))) big_batch"
  unfolding big_buffer_def using queue_fresh [OF distinct_big_batch, of "[]" 0] by simp

text \<open>
  On a table with one entry per key, \<open>ready_entries\<close> lists the values that the table
  holds under a key with the prefix, ready and not expired.
\<close>

lemma ready_entries_set:
  assumes "distinct (map fst s)"
  shows "set (ready_entries now s) =
           {t. \<exists>k e. prefix ''task:'' k \<and> map_of s k = Some (t, e) \<and> \<not> expired e now
                      \<and> status t = B_ready}"
  using assms by (force simp: ready_entries_def)

lemma big_buffer_keys_distinct: "distinct (map fst big_buffer)"
proof -
  have "map fst big_buffer = map (\<lambda>m. buffer_key (taskId m)) big_batch"
    by (simp add: big_buffer_eq comp_def)
  moreover have "distinct (map (\<lambda>m. buffer_key (taskId m)) big_batch)"
    using distinct_big_batch
    by (simp add: distinct_map inj_on_def buffer_key_inject)
  ultimately show ?thesis by simp
qed

section \<open>Handoff broker: claim\<close>

text \<open>
  Claim C1. A claim of a task id for which the buffer answers nothing fails with 404 and
  leaves the buffer as it was; this includes an entry that is still stored but whose expiry
  has passed. A claim of an entry whose status is not \<^verbatim>\<open>ready\<close> fails with 409 and leaves
  the buffer as it was.
\<close>

theorem claim_failure:
  "(kv_get (buffer_key tid) now s = None \<longrightarrow>
      broker_claim tid now s =
        (Response 404 (JObj [(''error'', JStr ''Task not found''), (''taskId'', JStr tid)]), s))
   \<and> (\<forall>task e. map_of s (buffer_key tid) = Some (task, Some e) \<and> e * 1000 \<le> now \<longrightarrow>
        code (fst (broker_claim tid now s)) = 404 \<and> snd (broker_claim tid now s) = s)
   \<and> (\<forall>task. kv_get (buffer_key tid) now s = Some task \<and> status task \<noteq> B_ready \<longrightarrow>
        code (fst (broker_claim tid now s)) = 409 \<and> snd (broker_claim tid now s) = s)"
  by (simp add: broker_claim_def kv_get_def expired_def)

theorem claim_failure_witness:
  "kv_get (buffer_key ''c'') 10 sample_buffer = None
   \<and> code (fst (broker_claim ''c'' 10 sample_buffer)) = 404
   \<and> snd (broker_claim ''c'' 10 sample_buffer) = sample_buffer
   \<and> map_of sample_buffer (buffer_key ''b'') = Some (sample_ready, Some 86400)
   \<and> (86400::nat) * 1000 \<le> 86400000
   \<and> code (fst (broker_claim ''b'' 86400000 sample_buffer)) = 404
   \<and> snd (broker_claim ''b'' 86400000 sample_buffer) = sample_buffer
   \<and> kv_get (buffer_key ''a'') 10 sample_buffer = Some sample_processing
   \<and> status sample_processing \<noteq> B_ready
   \<and> code (fst (broker_claim ''a'' 10 sample_buffer)) = 409
   \<and> snd (broker_claim ''a'' 10 sample_buffer) = sample_buffer"
  using claim_failure [of "''c''" 10 sample_buffer]
    claim_failure [of "''b''" 86400000 sample_buffer]
    claim_failure [of "''a''" 10 sample_buffer]
  by (simp add: kv_get_def buffer_key_def sample_buffer_def sample_processing_def expired_def)

text \<open>
  Claim C2. A claim of an entry that the buffer answers with status \<^verbatim>\<open>ready\<close> returns 200
  together with the entry whose status is now \<^verbatim>\<open>processing\<close> and whose \<^verbatim>\<open>claimedAt\<close> is
  the instant of the claim; that very entry, every other field as before, is what the
  buffer holds under the key afterwards, and no other key changes. The entry is written
  back without a time to live.
\<close>

theorem claim_ready_succeeds:
  assumes "kv_get (buffer_key tid) now s = Some task" and "status task = B_ready"
  shows "broker_claim tid now s =
           (Response 200
              (JObj [(''success'', JBool True),
                     (''task'', buffered_json (task\<lparr>status := B_processing, claimedAt := Some now\<rparr>)),
                     (''message'', JStr ''Task claimed successfully'')]),
            kv_put (buffer_key tid) (task\<lparr>status := B_processing, claimedAt := Some now\<rparr>) None now s)
         \<and> kv_get (buffer_key tid) later (snd (broker_claim tid now s))
             = Some (task\<lparr>status := B_processing, claimedAt := Some now\<rparr>)
         \<and> map_of (snd (broker_claim tid now s))
             = (map_of s)(buffer_key tid \<mapsto> (task\<lparr>status := B_processing, claimedAt := Some now\<rparr>, None))"
  using assms
  by (simp add: broker_claim_def claimed_def kv_get_put_same map_of_kv_put expired_def)

theorem claim_ready_succeeds_witness:
  "kv_get (buffer_key ''b'') 10 sample_buffer = Some sample_ready
   \<and> status sample_ready = B_ready
   \<and> fst (broker_claim ''b'' 10 sample_buffer) =
       Response 200
         (JObj [(''success'', JBool True),
                (''task'', buffered_json (sample_ready\<lparr>status := B_processing, claimedAt := Some 10\<rparr>)),
                (''message'', JStr ''Task claimed successfully'')])
   \<and> kv_get (buffer_key ''b'') 11 (snd (broker_claim ''b'' 10 sample_buffer))
       = Some \<lparr>taskId = ''b'', type = JStr ''email'', payload = Some (JObj []), createdAt = 1,
               status = B_processing, receivedAt = 2, claimedAt = Some 10\<rparr>"
proof -
  have g: "kv_get (buffer_key ''b'') 10 sample_buffer = Some sample_ready"
    by (simp add: kv_get_def buffer_key_def sample_buffer_def expired_def)
  have r: "status sample_ready = B_ready"
    by (simp add: sample_ready_def)
  note c = claim_ready_succeeds [OF g r, of 11]
  from c [THEN conjunct1] have a: "fst (broker_claim ''b'' 10 sample_buffer) =
       Response 200
         (JObj [(''success'', JBool True),
                (''task'', buffered_json (sample_ready\<lparr>status := B_processing, claimedAt := Some 10\<rparr>)),
                (''message'', JStr ''Task claimed successfully'')])"
    by simp
  from c [THEN conjunct2, THEN conjunct1]
  have b: "kv_get (buffer_key ''b'') 11 (snd (broker_claim ''b'' 10 sample_buffer))
       = Some \<lparr>taskId = ''b'', type = JStr ''email'', payload = Some (JObj []), createdAt = 1,
               status = B_processing, receivedAt = 2, claimedAt = Some 10\<rparr>"
    by (simp add: sample_ready_def)
  from g r a b show ?thesis by blast
qed

section \<open>Handoff broker: complete\<close>

text \<open>
  Claim C5. Completing a task id at the broker always answers 200 and removes the key,
  whatever the entry's status and whether or not there is an entry; no other key changes.
  A second call behaves as the first and changes nothing more, and a call for a key that
  is not stored leaves the buffer as it was.
\<close>

theorem complete_never_fails:
  "code (fst (broker_complete tid s)) = 200
   \<and> map_of (snd (broker_complete tid s)) = (map_of s)(buffer_key tid := None)
   \<and> kv_get (buffer_key tid) now (snd (broker_complete tid s)) = None
   \<and> broker_complete tid (snd (broker_complete tid s)) = broker_complete tid s
   \<and> (map_of s (buffer_key tid) = None \<longrightarrow> broker_complete tid s = (fst (broker_complete tid s), s))"
  by (simp add: broker_complete_def map_of_kv_delete kv_get_delete_same kv_delete_idem)
     (simp add: kv_delete_def map_of_eq_None_iff)

theorem complete_never_fails_witness:
  "map_of (kv_delete (buffer_key ''b'') sample_buffer) (buffer_key ''b'') = None
   \<and> broker_complete ''b'' (kv_delete (buffer_key ''b'') sample_buffer)
       = (fst (broker_complete ''b'' (kv_delete (buffer_key ''b'') sample_buffer)),
          kv_delete (buffer_key ''b'') sample_buffer)"
  using complete_never_fails [of "''b''" "kv_delete (buffer_key ''b'') sample_buffer" 0]
  by (simp add: map_of_kv_delete)

section \<open>Handoff broker: listing ready entries\<close>




section \<open>Handoff broker: redelivery\<close>

text \<open>
  Claim C9. After the queue handler has run on a batch, the entry under the task id of a
  message of the batch is made of the fields of the last message of the batch with that
  task id, with status \<^verbatim>\<open>ready\<close>, \<^verbatim>\<open>receivedAt\<close> the instant of the delivery and no
  \<^verbatim>\<open>claimedAt\<close>, whatever the buffer held before, so also when it held the task as
  \<^verbatim>\<open>processing\<close>. Until the expiry of the new entry, the end of the second
  \<open>now div 1000 + 86400\<close>, the buffer answers with this entry and a claim of the task id
  succeeds and returns it as \<^verbatim>\<open>processing\<close>.
\<close>

theorem redelivery_makes_claimable:
  assumes "m \<in> set batch"
    and "l = last (filter (\<lambda>x. taskId x = taskId m) batch)"
    and "later < (now div 1000 + 86400) * 1000"
  shows "kv_get (buffer_key (taskId m)) later (queue batch now s) =
           Some \<lparr>taskId = taskId m, type = type l, payload = payload l, createdAt = createdAt l,
                 status = B_ready, receivedAt = now, claimedAt = None\<rparr>
         \<and> kv_get (buffer_key (taskId m)) later (queue [m] now s) =
             Some \<lparr>taskId = taskId m, type = type m, payload = payload m,
                   createdAt = createdAt m, status = B_ready, receivedAt = now,
                   claimedAt = None\<rparr>
         \<and> fst (broker_claim (taskId m) later (queue batch now s)) =
             Response 200
               (JObj [(''success'', JBool True),
                      (''task'',
                       buffered_json
                         \<lparr>taskId = taskId m, type = type l, payload = payload l,
                          createdAt = createdAt l, status = B_processing, receivedAt = now,
                          claimedAt = Some later\<rparr>),
                      (''message'', JStr ''Task claimed successfully'')])"
proof -
  let ?f = "filter (\<lambda>x. taskId x = taskId m) batch"
  from assms(1) have ne: "?f \<noteq> []" by (auto simp: filter_empty_conv)
  then have "last ?f \<in> set ?f" by (rule last_in_set)
  with assms(2) have tl: "taskId l = taskId m" by simp
  from assms(3) have fresh: "\<not> expired (Some (now div 1000 + 86400)) later"
    by (simp add: expired_def)
  have "kv_get (buffer_key (taskId m)) later (queue batch now s) = Some (bufferedTask l now)"
    using ne fresh assms(2)
    by (simp add: kv_get_queue buffer_key_inject split: list.splits)
  with tl have a: "kv_get (buffer_key (taskId m)) later (queue batch now s) =
           Some \<lparr>taskId = taskId m, type = type l, payload = payload l, createdAt = createdAt l,
                 status = B_ready, receivedAt = now, claimedAt = None\<rparr>"
    by (simp add: bufferedTask_def)
  have b: "kv_get (buffer_key (taskId m)) later (queue [m] now s) =
             Some \<lparr>taskId = taskId m, type = type m, payload = payload m,
                   createdAt = createdAt m, status = B_ready, receivedAt = now,
                   claimedAt = None\<rparr>"
    using fresh by (simp add: kv_get_put_same bufferedTask_def)
  from a have c: "fst (broker_claim (taskId m) later (queue batch now s)) =
             Response 200
               (JObj [(''success'', JBool True),
                      (''task'',
                       buffered_json
                         \<lparr>taskId = taskId m, type = type l, payload = payload l,
                          createdAt = createdAt l, status = B_processing, receivedAt = now,
                          claimedAt = Some later\<rparr>),
                      (''message'', JStr ''Task claimed successfully'')])"
    by (simp add: broker_claim_def claimed_def)
  from a b c show ?thesis by blast
qed

theorem redelivery_makes_claimable_witness:
  "kv_get (buffer_key ''a'') 50 sample_buffer = Some sample_processing
   \<and> status sample_processing = B_processing
   \<and> code (fst (broker_claim ''a'' 50 sample_buffer)) = 409
   \<and> sample_message \<in> set [sample_message]
   \<and> sample_message = last (filter (\<lambda>x. taskId x = taskId sample_message) [sample_message])
   \<and> (60::nat) < (50 div 1000 + 86400) * 1000
   \<and> kv_get (buffer_key ''a'') 60 (queue [sample_message] 50 sample_buffer)
       = Some \<lparr>taskId = ''a'', type = JStr ''email'', payload = Some (JObj []), createdAt = 1,
               status = B_ready, receivedAt = 50, claimedAt = None\<rparr>
   \<and> code (fst (broker_claim ''a'' 60 (queue [sample_message] 50 sample_buffer))) = 200"
proof -
  have h1: "sample_message \<in> set [sample_message]" by simp
  have h2: "sample_message = last (filter (\<lambda>x. taskId x = taskId sample_message) [sample_message])"
    by simp
  have h3: "(60::nat) < (50 div 1000 + 86400) * 1000" by simp
  note r = redelivery_makes_claimable [OF h1 h2 h3, of sample_buffer]
  from r [THEN conjunct1]
  have a: "kv_get (buffer_key ''a'') 60 (queue [sample_message] 50 sample_buffer)
       = Some \<lparr>taskId = ''a'', type = JStr ''email'', payload = Some (JObj []), createdAt = 1,
               status = B_ready, receivedAt = 50, claimedAt = None\<rparr>"
    by (simp add: sample_message_def)
  from r [THEN conjunct2, THEN conjunct2]
  have b: "code (fst (broker_claim ''a'' 60 (queue [sample_message] 50 sample_buffer))) = 200"
    by (simp add: sample_message_def)
  have c: "kv_get (buffer_key ''a'') 50 sample_buffer = Some sample_processing
     \<and> status sample_processing = B_processing
     \<and> code (fst (broker_claim ''a'' 50 sample_buffer)) = 409"
    by (simp add: kv_get_def buffer_key_def sample_buffer_def sample_processing_def expired_def
        broker_claim_def)
  from a b c h1 h2 h3 show ?thesis by blast
qed

section \<open>Submission service: submit\<close>

text \<open>
  Claim C10. A \<^verbatim>\<open>POST /tasks\<close> whose body is not parseable JSON is answered with 500 and
  changes neither the storage nor the queue. The answer is 400 exactly when the body
  parses to a value other than \<^verbatim>\<open>null\<close> whose \<^verbatim>\<open>type\<close> is absent or falsy.
\<close>

theorem submit_unparseable_is_500:
  "api_submit None uuid now s q =
     (Response 500 (JObj [(''error'', JStr ''Failed to create task'')]), s, q)
   \<and> (code (fst (api_submit reqBody uuid now s q)) = 400
        \<longleftrightarrow> (\<exists>b. reqBody = Some b \<and> b \<noteq> JNull \<and> \<not> truthy_opt (field b ''type'')))"
  by (auto simp: api_submit_def split: option.splits)

theorem submit_unparseable_is_500_witness:
  "code (fst (api_submit None ''t2'' 5 sample_storage [])) = 500
   \<and> code (fst (api_submit (Some (JObj [(''payload'', JNum 1)])) ''t2'' 5 sample_storage [])) = 400
   \<and> code (fst (api_submit (Some (JObj [(''type'', JStr ''''), (''payload'', JNum 1)])) ''t2'' 5
                  sample_storage [])) = 400
   \<and> code (fst (api_submit (Some JNull) ''t2'' 5 sample_storage [])) = 500
   \<and> code (fst (api_submit (Some sample_submit_body) ''t2'' 5 sample_storage [])) = 201"
  using submit_unparseable_is_500 [of "''t2''" 5 sample_storage "[]" "Some (JObj [(''payload'', JNum 1)])"]
    submit_unparseable_is_500 [of "''t2''" 5 sample_storage "[]" "Some (JObj [(''type'', JStr ''''), (''payload'', JNum 1)])"]
    submit_unparseable_is_500 [of "''t2''" 5 sample_storage "[]" "Some JNull"]
    submit_unparseable_is_500 [of "''t2''" 5 sample_storage "[]" "Some sample_submit_body"]
  by (simp add: api_submit_def sample_submit_body_def)

section \<open>Submission service: status\<close>

text \<open>
  Claim C8, as the code has it. \<^verbatim>\<open>GET /tasks/:id/status\<close> answers 404 when the storage
  holds no record for the id; otherwise it answers 200 with \<^verbatim>\<open>taskId\<close>, \<^verbatim>\<open>status\<close>,
  \<^verbatim>\<open>type\<close>, \<^verbatim>\<open>createdAt\<close> and, when set, \<^verbatim>\<open>completedAt\<close> of the record. In both cases
  the storage is left as it was.
\<close>

theorem getStatus_snapshot:
  "(kv_get (storage_key tid) now s = None \<longrightarrow>
      api_getStatus tid now s = (Response 404 (JObj [(''error'', JStr ''Task not found'')]), s))
   \<and> (\<forall>task. kv_get (storage_key tid) now s = Some task \<longrightarrow>
        api_getStatus tid now s =
          (Response 200
             (JObj ([(''taskId'', JStr (t_id task)),
                     (''status'', JStr (task_status_string (t_status task))),
                     (''type'', t_type task),
                     (''createdAt'', JStamp (t_createdAt task))]
                    @ (case t_completedAt task of None \<Rightarrow> []
                       | Some t \<Rightarrow> [(''completedAt'', JStamp t)]))),
           s))"
  by (simp add: api_getStatus_def opt_field_def split: option.splits)

theorem getStatus_snapshot_witness:
  "kv_get (storage_key ''t0'') 9 sample_storage = None
   \<and> api_getStatus ''t0'' 9 sample_storage
       = (Response 404 (JObj [(''error'', JStr ''Task not found'')]), sample_storage)
   \<and> kv_get (storage_key ''t1'') 9 sample_storage = Some sample_task
   \<and> api_getStatus ''t1'' 9 sample_storage
       = (Response 200 (JObj [(''taskId'', JStr ''t1''), (''status'', JStr ''pending''),
                              (''type'', JStr ''email''), (''createdAt'', JStamp 1)]),
          sample_storage)"
  using getStatus_snapshot [of "''t0''" 9 sample_storage]
    getStatus_snapshot [of "''t1''" 9 sample_storage]
  by (simp add: kv_get_def storage_key_def sample_storage_def sample_task_def expired_def)

text \<open>
  The answer is not the full record: the payload of the stored task does not occur in it,
  and a record without that payload gets the same answer.
\<close>

theorem getStatus_not_full_record:
  "kv_get (storage_key ''t1'') 9 sample_storage = Some sample_task
   \<and> t_payload sample_task = Some (JObj [(''to'', JStr ''a@b.com'')])
   \<and> field (body (fst (api_getStatus ''t1'' 9 sample_storage))) ''payload'' = None
   \<and> body (fst (api_getStatus ''t1'' 9 sample_storage)) \<noteq> task_json sample_task
   \<and> fst (api_getStatus ''t1'' 9 [(''task:t1'', sample_task\<lparr>t_payload := None\<rparr>, None)])
       = fst (api_getStatus ''t1'' 9 sample_storage)"
  by (simp add: api_getStatus_def kv_get_def storage_key_def sample_storage_def sample_task_def
      expired_def opt_field_def task_json_def)

section \<open>Submission service: reporting completion\<close>

lemma kv_get_no_expiry: "map_of s k = Some (v, None) \<Longrightarrow> kv_get k now s = Some v"
  by (simp add: kv_get_def expired_def)

lemma kv_put_twice: "kv_put k v2 ttl2 t2 (kv_put k v1 ttl1 t1 s) = kv_put k v2 ttl2 t2 s"
  by (simp add: kv_put_def)

lemma completedTask_twice:
  "completedTask (completedTask task b t1) b t2 = completedTask task b t2"
  by (simp add: completedTask_def)

lemma completedTask_terminal: "terminal (t_status (completedTask task b now))"
  by (simp add: completedTask_def terminal_def)

lemma api_complete_found:
  assumes "map_of s (storage_key tid) = Some (task, None)" and "b \<noteq> JNull"
  shows "snd (api_complete tid (Some b) now s)
           = kv_put (storage_key tid) (completedTask task b now) None now s"
    and "code (fst (api_complete tid (Some b) now s)) = 200"
  using assms by (simp_all add: api_complete_def kv_get_no_expiry)

lemma api_complete_keeps_terminal:
  assumes "map_of s k = Some (r, None)" and "terminal (t_status r)"
  shows "\<exists>r'. map_of (snd (api_complete tid reqBody now s)) k = Some (r', None)
              \<and> terminal (t_status r')"
proof (cases "k = storage_key tid")
  case True
  with assms show ?thesis
    by (auto simp: api_complete_def map_of_kv_put kv_get_no_expiry completedTask_terminal
        split: option.splits)
next
  case False
  with assms show ?thesis
    by (auto simp: api_complete_def map_of_kv_put split: option.splits)
qed

text \<open>
  Claim C4, as the code has it. For a stored record and a body that is an object, a second
  report with the same body succeeds and leaves the record of the first report with
  \<^verbatim>\<open>completedAt\<close> stamped anew, every other field the same; the storage is then what the
  later report alone would have produced. After a report the record is terminal, and no
  later request to the endpoint, whatever its body, makes it non-terminal.
\<close>

theorem reportCompletion_repeat:
  assumes "map_of s (storage_key tid) = Some (task, None)" and "b \<noteq> JNull"
  shows "\<exists>r1 r2.
           map_of (snd (api_complete tid (Some b) t1 s)) (storage_key tid) = Some (r1, None)
         \<and> map_of (snd (api_complete tid (Some b) t2 (snd (api_complete tid (Some b) t1 s))))
               (storage_key tid) = Some (r2, None)
         \<and> t_completedAt r1 = Some t1
         \<and> r2 = r1\<lparr>t_completedAt := Some t2\<rparr>
         \<and> terminal (t_status r1)
         \<and> code (fst (api_complete tid (Some b) t2 (snd (api_complete tid (Some b) t1 s)))) = 200
         \<and> snd (api_complete tid (Some b) t2 (snd (api_complete tid (Some b) t1 s)))
             = snd (api_complete tid (Some b) t2 s)
         \<and> (\<exists>r3. map_of (snd (api_complete tid reqBody t2 (snd (api_complete tid (Some b) t1 s))))
                      (storage_key tid) = Some (r3, None)
                 \<and> terminal (t_status r3))"
proof -
  let ?s1 = "snd (api_complete tid (Some b) t1 s)"
  let ?r1 = "completedTask task b t1"
  have s1: "?s1 = kv_put (storage_key tid) ?r1 None t1 s"
    by (rule api_complete_found(1) [OF assms])
  have m1: "map_of ?s1 (storage_key tid) = Some (?r1, None)"
    by (simp add: s1 map_of_kv_put)
  have s2: "snd (api_complete tid (Some b) t2 ?s1)
              = kv_put (storage_key tid) (completedTask ?r1 b t2) None t2 ?s1"
    by (rule api_complete_found(1) [OF m1 assms(2)])
  have "snd (api_complete tid (Some b) t2 ?s1)
          = kv_put (storage_key tid) (completedTask task b t2) None t2 ?s1"
    using s2 by (simp only: completedTask_twice)
  also have "\<dots> = kv_put (storage_key tid) (completedTask task b t2) None t2 s"
    by (subst s1) (rule kv_put_twice)
  also have "\<dots> = snd (api_complete tid (Some b) t2 s)"
    by (rule api_complete_found(1) [OF assms, symmetric])
  finally have s2': "snd (api_complete tid (Some b) t2 ?s1) = snd (api_complete tid (Some b) t2 s)" .
  have m2: "map_of (snd (api_complete tid (Some b) t2 ?s1)) (storage_key tid)
              = Some (completedTask task b t2, None)"
    by (subst s2') (simp add: api_complete_found(1) [OF assms] map_of_kv_put)
  have eq: "completedTask task b t2 = ?r1\<lparr>t_completedAt := Some t2\<rparr>"
    by (simp add: completedTask_def)
  have c2: "code (fst (api_complete tid (Some b) t2 ?s1)) = 200"
    by (rule api_complete_found(2) [OF m1 assms(2)])
  have t1: "terminal (t_status ?r1)" by (rule completedTask_terminal)
  have k: "\<exists>r3. map_of (snd (api_complete tid reqBody t2 ?s1)) (storage_key tid) = Some (r3, None)
                 \<and> terminal (t_status r3)"
    by (rule api_complete_keeps_terminal [OF m1 t1])
  have ca: "t_completedAt ?r1 = Some t1" by (simp add: completedTask_def)
  from m1 m2 eq c2 t1 k ca s2' show ?thesis by blast
qed

theorem reportCompletion_repeat_witness:
  "map_of sample_storage (storage_key ''t1'') = Some (sample_task, None)
   \<and> sample_success_body \<noteq> JNull
   \<and> map_of (snd (api_complete ''t1'' (Some sample_success_body) 10 sample_storage)) (storage_key ''t1'')
       = Some (sample_task\<lparr>t_status := S_completed, t_completedAt := Some 10,
                 t_result := Some (JObj [(''processedBy'', JStr ''local-consumer-v2'')])\<rparr>, None)
   \<and> map_of (snd (api_complete ''t1'' (Some sample_success_body) 20
                    (snd (api_complete ''t1'' (Some sample_success_body) 10 sample_storage))))
         (storage_key ''t1'')
       = Some (sample_task\<lparr>t_status := S_completed, t_completedAt := Some 20,
                 t_result := Some (JObj [(''processedBy'', JStr ''local-consumer-v2'')])\<rparr>, None)"
  using reportCompletion_repeat [of sample_storage "''t1''" sample_task sample_success_body 10 20 None]
  by (simp add: sample_storage_def storage_key_def sample_success_body_def completionBody_def
      opt_field_def api_complete_def kv_get_def expired_def kv_put_def completedTask_def
      sample_task_def)

text \<open>
  Two reports with the same outcome at different instants do not leave the same record:
  the second one changes \<^verbatim>\<open>completedAt\<close>.
\<close>

theorem reportCompletion_restamps:
  "map_of (snd (api_complete ''t1'' (Some sample_success_body) 20
                    (snd (api_complete ''t1'' (Some sample_success_body) 10 sample_storage))))
         (storage_key ''t1'')
   \<noteq> map_of (snd (api_complete ''t1'' (Some sample_success_body) 10 sample_storage))
         (storage_key ''t1'')"
  by (simp add: sample_storage_def storage_key_def sample_success_body_def completionBody_def
      opt_field_def api_complete_def kv_get_def expired_def kv_put_def completedTask_def
      sample_task_def)

section \<open>Submission service: result and error\<close>

lemma set_update_subset: "set (AList.update k v s) \<subseteq> insert (k, v) (set s)"
  by (induction s) auto

lemma inv_kv_put:
  assumes "result_error_only_terminal s"
    and "(t_result t = None \<and> t_error t = None) \<or> terminal (t_status t)"
  shows "result_error_only_terminal (kv_put k t ttl now s)"
  using assms set_update_subset [of k "(t, map_option (\<lambda>secs. now div 1000 + secs) ttl)" s]
  by (fastforce simp: result_error_only_terminal_def kv_put_def list_all_iff)

lemma inv_api_step:
  assumes "result_error_only_terminal (fst st)"
  shows "result_error_only_terminal (fst (api_step r st))"
proof (cases st)
  case (Pair s q)
  with assms have inv: "result_error_only_terminal s" by simp
  show ?thesis
  proof (cases r)
    case (Submit reqBody uuid now)
    with Pair inv show ?thesis
      by (auto simp: api_submit_def inv_kv_put split: option.splits)
  next
    case (GetStatus tid now)
    with Pair inv show ?thesis by (simp add: api_getStatus_def split: option.splits)
  next
    case (ReportCompletion tid reqBody now)
    with Pair inv show ?thesis
      by (auto simp: api_complete_def inv_kv_put completedTask_terminal split: option.splits)
  next
    case (ListAll now)
    with Pair inv show ?thesis by (simp add: api_listAll_def Let_def)
  qed
qed

lemma inv_fold:
  "result_error_only_terminal (fst st) \<Longrightarrow> result_error_only_terminal (fst (fold api_step reqs st))"
  by (induction reqs arbitrary: st) (simp_all add: inv_api_step)

lemma sample_run:
  "fst (api_run sample_requests) =
     [(''task:t1'',
       sample_task\<lparr>t_status := S_failed, t_completedAt := Some 20,
                    t_result := Some (JObj [(''processedBy'', JStr ''local-consumer-v2'')]),
                    t_error := Some (JStr ''Simulated task failure'')\<rparr>,
       None)]"
  by (simp add: api_run_def sample_requests_def api_submit_def api_complete_def
      sample_submit_body_def sample_success_body_def sample_failure_body_def completionBody_def
      opt_field_def kv_put_def kv_get_def expired_def storage_key_def completedTask_def
      sample_task_def)

text \<open>
  Claim C7, as the code has it. In every storage the submission service can reach from the
  empty one, a record that carries a \<^verbatim>\<open>result\<close> or an \<^verbatim>\<open>error\<close> is \<^verbatim>\<open>completed\<close> or
  \<^verbatim>\<open>failed\<close>.
\<close>

theorem result_error_only_when_terminal:
  "\<forall>(k, t, e) \<in> set (fst (api_run reqs)).
      (t_result t \<noteq> None \<or> t_error t \<noteq> None) \<longrightarrow> t_status t = S_completed \<or> t_status t = S_failed"
proof -
  have "result_error_only_terminal (fst (api_run reqs))"
    unfolding api_run_def by (rule inv_fold) (simp add: result_error_only_terminal_def)
  then show ?thesis
    by (auto simp: result_error_only_terminal_def list_all_iff terminal_def)
qed

theorem result_error_only_when_terminal_witness:
  "(''task:t1'',
    sample_task\<lparr>t_status := S_failed, t_completedAt := Some 20,
                 t_result := Some (JObj [(''processedBy'', JStr ''local-consumer-v2'')]),
                 t_error := Some (JStr ''Simulated task failure'')\<rparr>,
    None) \<in> set (fst (api_run sample_requests))
   \<and> t_result (sample_task\<lparr>t_status := S_failed, t_completedAt := Some 20,
                 t_result := Some (JObj [(''processedBy'', JStr ''local-consumer-v2'')]),
                 t_error := Some (JStr ''Simulated task failure'')\<rparr>) \<noteq> None
   \<and> t_status (sample_task\<lparr>t_status := S_failed, t_completedAt := Some 20,
                 t_result := Some (JObj [(''processedBy'', JStr ''local-consumer-v2'')]),
                 t_error := Some (JStr ''Simulated task failure'')\<rparr>) = S_failed"
  using result_error_only_when_terminal [of sample_requests]
  by (simp add: sample_run)

text \<open>
  The two fields are not exclusive: a report of success with a result followed by a report
  of failure with an error leaves a record that carries both.
\<close>

theorem result_and_error_together:
  "fst (api_run sample_requests) =
     [(''task:t1'',
       \<lparr>t_id = ''t1'', t_type = JStr ''email'',
        t_payload = Some (JObj [(''to'', JStr ''a@b.com'')]), t_createdAt = 1,
        t_status = S_failed, t_completedAt = Some 20,
        t_result = Some (JObj [(''processedBy'', JStr ''local-consumer-v2'')]),
        t_error = Some (JStr ''Simulated task failure'')\<rparr>,
       None)]"
  by (simp add: sample_run sample_task_def)

section \<open>Worker: order of the two completion requests\<close>

lemma requests_emit:
  "requests (trace (emit e w)) = requests (trace w) @ (if is_request e then [e] else [])"
  by (simp add: requests_def emit_def)

lemma emit_fields [simp]:
  "api_storage (emit e w) = api_storage w" "task_buffer (emit e w) = task_buffer w"
  "set (trace (emit e w)) = insert e (set (trace w))"
  by (simp_all add: emit_def)

lemma markTaskCompleted_requests:
  "requests (trace (markTaskCompleted n now tid su res err w))
     = requests (trace w) @ [Post_api_complete tid (completionBody su res err)]"
  by (simp add: markTaskCompleted_def Let_def requests_emit requests_def split: prod.splits)
     (simp add: emit_def)

lemma markTaskCompleted_buffer:
  "task_buffer (markTaskCompleted n now tid su res err w) = task_buffer w"
  by (simp add: markTaskCompleted_def Let_def split: prod.splits)

lemma markTaskCompleted_storage:
  "api_storage (markTaskCompleted n now tid su res err w)
     = (if api_up n then snd (api_complete tid (Some (completionBody su res err)) now (api_storage w))
        else api_storage w)"
  by (simp add: markTaskCompleted_def Let_def split: prod.splits)

lemma markTaskCompleted_logs_failure:
  assumes "\<not> api_up n \<or> kv_get (storage_key tid) now (api_storage w) = None"
  shows "Log L_error ''Failed to mark task as completed in API''
           \<in> set (trace (markTaskCompleted n now tid su res err w))
         \<and> api_storage (markTaskCompleted n now tid su res err w) = api_storage w"
  using assms
  by (auto simp: markTaskCompleted_def Let_def api_complete_def completionBody_def
      split: prod.splits)

lemma completeTaskInBuffer_requests:
  "requests (trace (completeTaskInBuffer n tid w)) = requests (trace w) @ [Post_buffer_complete tid]"
  by (simp add: completeTaskInBuffer_def Let_def requests_emit requests_def split: prod.splits)
     (simp add: emit_def)

lemma completeTaskInBuffer_buffer:
  "task_buffer (completeTaskInBuffer n tid w)
     = (if buffer_up n then kv_delete (buffer_key tid) (task_buffer w) else task_buffer w)"
  by (simp add: completeTaskInBuffer_def Let_def broker_complete_def split: prod.splits)

lemma completeTaskInBuffer_storage:
  "api_storage (completeTaskInBuffer n tid w) = api_storage w"
  by (simp add: completeTaskInBuffer_def Let_def split: prod.splits)

lemma completeTaskInBuffer_trace:
  "set (trace w) \<subseteq> set (trace (completeTaskInBuffer n tid w))"
  by (auto simp: completeTaskInBuffer_def Let_def split: prod.splits)

lemma processTask_never_returns:
  "payload task = None \<or> payload task = Some JNull \<Longrightarrow> processTask n now task w = None"
  by (auto simp: processTask_def)

text \<open>
  Whenever the work on a claimed task settles, with success or with failure,
  \<open>processTask\<close> returns, and the requests it has sent are the completion report to the
  submission service followed by the completion request to the broker, in this order and
  nothing else; the report carries the outcome. The broker's entry is deleted whenever the
  broker answers, also when the report did not get through or was refused as unknown; in
  that case the storage of the submission service is as before and the failure is logged
  at level error.
\<close>

lemma report_before_retire:
  assumes "simulateWork (type task) (payload task) \<noteq> NeverSettles"
  shows "\<exists>w' reqBody.
           processTask n now task w = Some w'
         \<and> requests (trace w') = requests (trace w)
              @ [Post_api_complete (taskId task) reqBody, Post_buffer_complete (taskId task)]
         \<and> field reqBody ''success''
              = Some (JBool (simulateWork (type task) (payload task) = Resolved))
         \<and> (buffer_up n \<longrightarrow>
               task_buffer w' = kv_delete (buffer_key (taskId task)) (task_buffer w))
         \<and> (api_up n \<longrightarrow>
               api_storage w' = snd (api_complete (taskId task) (Some reqBody) now (api_storage w)))
         \<and> (\<not> api_up n \<or> kv_get (storage_key (taskId task)) now (api_storage w) = None \<longrightarrow>
               api_storage w' = api_storage w
             \<and> Log L_error ''Failed to mark task as completed in API'' \<in> set (trace w'))"
proof (cases "simulateWork (type task) (payload task)")
  case Resolved
  let ?res = "Some (JObj [(''processedAt'', JStamp now),
                          (''processedBy'', JStr ''local-consumer-v2''),
                          (''processingDuration'', JNum (getProcessingTime (type task)))])"
  let ?w0 = "emit (Log L_info ''Simulating work'')
               (emit (Log L_info ''Processing task'') (emit (Log L_info ''Processing Task:'') w))"
  let ?w1 = "markTaskCompleted n now (taskId task) True ?res None ?w0"
  let ?w' = "emit (Log L_info ''Task completed successfully'')
               (completeTaskInBuffer n (taskId task) ?w1)"
  have p: "processTask n now task w = Some ?w'"
    using Resolved by (simp add: processTask_def)
  have r: "requests (trace ?w') = requests (trace w)
             @ [Post_api_complete (taskId task) (completionBody True ?res None),
                Post_buffer_complete (taskId task)]"
    by (simp add: requests_emit completeTaskInBuffer_requests markTaskCompleted_requests)
  have f: "field (completionBody True ?res None) ''success'' = Some (JBool True)"
    by (simp add: completionBody_def opt_field_def)
  have b: "buffer_up n \<longrightarrow> task_buffer ?w' = kv_delete (buffer_key (taskId task)) (task_buffer w)"
    by (simp add: completeTaskInBuffer_buffer markTaskCompleted_buffer)
  have a: "api_up n \<longrightarrow> api_storage ?w'
             = snd (api_complete (taskId task) (Some (completionBody True ?res None)) now (api_storage w))"
    by (simp add: completeTaskInBuffer_storage markTaskCompleted_storage)
  have l: "\<not> api_up n \<or> kv_get (storage_key (taskId task)) now (api_storage w) = None \<longrightarrow>
               api_storage ?w' = api_storage w
             \<and> Log L_error ''Failed to mark task as completed in API'' \<in> set (trace ?w')"
  proof
    assume h: "\<not> api_up n \<or> kv_get (storage_key (taskId task)) now (api_storage w) = None"
    then have "\<not> api_up n \<or> kv_get (storage_key (taskId task)) now (api_storage ?w0) = None"
      by simp
    from markTaskCompleted_logs_failure [OF this, of True ?res None]
      completeTaskInBuffer_trace [of ?w1 n "taskId task"]
    show "api_storage ?w' = api_storage w
             \<and> Log L_error ''Failed to mark task as completed in API'' \<in> set (trace ?w')"
      by (auto simp: completeTaskInBuffer_storage)
  qed
  from p r f b a l Resolved show ?thesis by (intro exI [of _ ?w'] exI [of _ "completionBody True ?res None"]) simp
next
  case (Rejected msg)
  let ?w0 = "emit (Log L_error ''Task failed'') (emit (Log L_info ''Simulating work'')
               (emit (Log L_info ''Processing task'') (emit (Log L_info ''Processing Task:'') w)))"
  let ?w1 = "markTaskCompleted n now (taskId task) False None (Some msg) ?w0"
  let ?w' = "completeTaskInBuffer n (taskId task) ?w1"
  have p: "processTask n now task w = Some ?w'"
    using Rejected by (simp add: processTask_def)
  have r: "requests (trace ?w') = requests (trace w)
             @ [Post_api_complete (taskId task) (completionBody False None (Some msg)),
                Post_buffer_complete (taskId task)]"
    by (simp add: requests_emit completeTaskInBuffer_requests markTaskCompleted_requests)
  have f: "field (completionBody False None (Some msg)) ''success'' = Some (JBool False)"
    by (simp add: completionBody_def opt_field_def)
  have b: "buffer_up n \<longrightarrow> task_buffer ?w' = kv_delete (buffer_key (taskId task)) (task_buffer w)"
    by (simp add: completeTaskInBuffer_buffer markTaskCompleted_buffer)
  have a: "api_up n \<longrightarrow> api_storage ?w'
             = snd (api_complete (taskId task) (Some (completionBody False None (Some msg))) now (api_storage w))"
    by (simp add: completeTaskInBuffer_storage markTaskCompleted_storage)
  have l: "\<not> api_up n \<or> kv_get (storage_key (taskId task)) now (api_storage w) = None \<longrightarrow>
               api_storage ?w' = api_storage w
             \<and> Log L_error ''Failed to mark task as completed in API'' \<in> set (trace ?w')"
  proof
    assume h: "\<not> api_up n \<or> kv_get (storage_key (taskId task)) now (api_storage w) = None"
    then have "\<not> api_up n \<or> kv_get (storage_key (taskId task)) now (api_storage ?w0) = None"
      by simp
    from markTaskCompleted_logs_failure [OF this, of False None "Some msg"]
      completeTaskInBuffer_trace [of ?w1 n "taskId task"]
    show "api_storage ?w' = api_storage w
             \<and> Log L_error ''Failed to mark task as completed in API'' \<in> set (trace ?w')"
      by (auto simp: completeTaskInBuffer_storage)
  qed
  from p r f b a l Rejected show ?thesis
    by (intro exI [of _ ?w'] exI [of _ "completionBody False None (Some msg)"]) simp
next
  case NeverSettles
  with assms show ?thesis by simp
qed

lemma report_before_retire_example:
  "simulateWork (type sample_claimed) (payload sample_claimed) \<noteq> NeverSettles
   \<and> map_option (\<lambda>w'. requests (trace w')) (processTask sample_net 20 sample_claimed sample_world)
       = Some [Post_api_complete ''t1'' sample_failure_body, Post_buffer_complete ''t1'']
   \<and> map_option task_buffer (processTask sample_net 20 sample_claimed sample_world) = Some []
   \<and> map_option api_storage (processTask sample_net 20 sample_claimed sample_world)
       = Some sample_storage
   \<and> map_option (\<lambda>w'. Log L_error ''Failed to mark task as completed in API'' \<in> set (trace w'))
        (processTask sample_net 20 sample_claimed sample_world) = Some True"
proof -
  have h: "simulateWork (type sample_claimed) (payload sample_claimed) \<noteq> NeverSettles"
    by (simp add: sample_claimed_def)
  from report_before_retire [OF h, of sample_net 20 sample_world]
  obtain w' reqBody where
    p: "processTask sample_net 20 sample_claimed sample_world = Some w'" and
    r: "requests (trace w') = requests (trace sample_world)
          @ [Post_api_complete (taskId sample_claimed) reqBody,
             Post_buffer_complete (taskId sample_claimed)]" and
    b: "buffer_up sample_net \<longrightarrow>
          task_buffer w' = kv_delete (buffer_key (taskId sample_claimed)) (task_buffer sample_world)" and
    l: "\<not> api_up sample_net
          \<or> kv_get (storage_key (taskId sample_claimed)) 20 (api_storage sample_world) = None \<longrightarrow>
        api_storage w' = api_storage sample_world
        \<and> Log L_error ''Failed to mark task as completed in API'' \<in> set (trace w')"
    by (elim exE conjE) (rule that, assumption+)
  have q: "processTask sample_net 20 sample_claimed sample_world
             = Some (completeTaskInBuffer sample_net ''t1''
                      (markTaskCompleted sample_net 20 ''t1'' False None
                         (Some ''Simulated task failure'')
                         (emit (Log L_error ''Task failed'')
                            (emit (Log L_info ''Simulating work'')
                               (emit (Log L_info ''Processing task'')
                                  (emit (Log L_info ''Processing Task:'') sample_world))))))"
    by (simp add: processTask_def sample_claimed_def)
  have r': "requests (trace w') =
              [Post_api_complete ''t1'' sample_failure_body, Post_buffer_complete ''t1'']"
  proof -
    from p q have w': "w' = completeTaskInBuffer sample_net ''t1''
                      (markTaskCompleted sample_net 20 ''t1'' False None
                         (Some ''Simulated task failure'')
                         (emit (Log L_error ''Task failed'')
                            (emit (Log L_info ''Simulating work'')
                               (emit (Log L_info ''Processing task'')
                                  (emit (Log L_info ''Processing Task:'') sample_world)))))"
      by simp
    have "requests (trace sample_world) = []"
      by (simp add: sample_world_def requests_def)
    then show ?thesis
      unfolding w'
      by (simp add: completeTaskInBuffer_requests markTaskCompleted_requests requests_emit
          sample_failure_body_def)
  qed
  from b have b': "task_buffer w' = []"
    by (simp add: sample_net_def sample_world_def sample_claimed_def kv_delete_def buffer_key_def)
  from l have l': "api_storage w' = sample_storage
        \<and> Log L_error ''Failed to mark task as completed in API'' \<in> set (trace w')"
    by (simp add: sample_net_def sample_world_def)
  from h p r' b' l' show ?thesis by simp
qed

text \<open>
  Claim C3. For every claimed task the worker is to report the completion to the submission
  service and then to retire the entry at the broker. A task submitted with a type and no
  payload shows that \<open>processTask\<close> does not: the submission is accepted with 201 and
  queued without payload, the delivered message is buffered and its claim answers 200 with
  the entry, and on this entry the work never settles and \<open>processTask\<close> does not return,
  so that neither request is sent.
\<close>

theorem payloadless_task_never_reported:
  "api_submit (Some bare_body) ''t2'' 1 [] [] =
     (Response 201
        (JObj [(''success'', JBool True), (''taskId'', JStr ''t2''),
               (''status'', JStr ''pending''),
               (''message'', JStr ''Task queued successfully'')]),
      [(''task:t2'',
        \<lparr>t_id = ''t2'', t_type = JStr ''email'', t_payload = None, t_createdAt = 1,
         t_status = S_pending, t_completedAt = None, t_result = None, t_error = None\<rparr>,
        None)],
      [bare_message])
   \<and> fst (broker_claim ''t2'' 3 (queue [bare_message] 2 [])) =
       Response 200
         (JObj [(''success'', JBool True), (''task'', buffered_json bare_claimed),
                (''message'', JStr ''Task claimed successfully'')])
   \<and> payload bare_claimed = None
   \<and> simulateWork (type bare_claimed) (payload bare_claimed) = NeverSettles
   \<and> processTask net_up 4 bare_claimed bare_world = None"
proof -
  have a: "api_submit (Some bare_body) ''t2'' 1 [] [] =
     (Response 201
        (JObj [(''success'', JBool True), (''taskId'', JStr ''t2''),
               (''status'', JStr ''pending''),
               (''message'', JStr ''Task queued successfully'')]),
      [(''task:t2'',
        \<lparr>t_id = ''t2'', t_type = JStr ''email'', t_payload = None, t_createdAt = 1,
         t_status = S_pending, t_completedAt = None, t_result = None, t_error = None\<rparr>,
        None)],
      [bare_message])"
    by (simp add: api_submit_def bare_body_def bare_message_def kv_put_def storage_key_def)
  have b: "fst (broker_claim ''t2'' 3 (queue [bare_message] 2 [])) =
       Response 200
         (JObj [(''success'', JBool True), (''task'', buffered_json bare_claimed),
                (''message'', JStr ''Task claimed successfully'')])"
    by (simp add: broker_claim_def kv_get_def kv_put_def buffer_key_def expired_def
        bufferedTask_def claimed_def bare_message_def bare_claimed_def)
  have c: "payload bare_claimed = None" by (simp add: bare_claimed_def)
  then have d: "simulateWork (type bare_claimed) (payload bare_claimed) = NeverSettles" by simp
  then have e: "processTask net_up 4 bare_claimed bare_world = None"
    by (simp add: processTask_def)
  from a b c d e show ?thesis by blast
qed

end
